theory Spec2Isabelle
  imports Complex_Main
begin

section \<open>Column names (data\_prepare.py)\<close>

text \<open>
  A column name is a Python \<open>str\<close>, a sequence of code points. It is modelled as a
  \<open>string\<close> whose characters are read as the code points U+0000 .. U+00FF, so
  \<open>length\<close> counts what Python's \<open>len\<close> counts. Names with code points beyond
  U+00FF are outside the model.
\<close>

definition is_ascii_upper :: "char \<Rightarrow> bool" where
  \<comment> \<open>the regex class \<open>[A-Z]\<close>\<close>
  "is_ascii_upper c = (65 \<le> (of_char c :: nat) \<and> (of_char c :: nat) \<le> 90)"

definition is_ascii_lower_or_digit :: "char \<Rightarrow> bool" where
  \<comment> \<open>the regex class \<open>[a-z0-9]\<close>\<close>
  "is_ascii_lower_or_digit c =
     ((97 \<le> (of_char c :: nat) \<and> (of_char c :: nat) \<le> 122) \<or>
      (48 \<le> (of_char c :: nat) \<and> (of_char c :: nat) \<le> 57))"

definition isupper :: "char \<Rightarrow> bool" where
  \<comment> \<open>\<open>str.isupper\<close> on one code point below U+0100: A-Z, and U+00C0 .. U+00DE
      without the multiplication sign U+00D7\<close>
  "isupper c =
     ((65 \<le> (of_char c :: nat) \<and> (of_char c :: nat) \<le> 90) \<or>
      (192 \<le> (of_char c :: nat) \<and> (of_char c :: nat) \<le> 214) \<or>
      (216 \<le> (of_char c :: nat) \<and> (of_char c :: nat) \<le> 222))"


definition lower_char :: "char \<Rightarrow> char" where
  \<comment> \<open>\<open>str.lower\<close> on one code point below U+0100\<close>
  "lower_char c = (if isupper c then char_of ((of_char c :: nat) + 32) else c)"

fun regex_camel :: "string \<Rightarrow> string" where
  \<comment> \<open>\<open>.str.replace(r"([a-z0-9])([A-Z])", r"\1 \2", regex=True)\<close>: scan from the left;
      a match takes two characters and the scan goes on behind it\<close>
  "regex_camel (a # b # cs) =
     (if is_ascii_lower_or_digit a \<and> is_ascii_upper b
      then a # CHR '' '' # b # regex_camel cs
      else a # regex_camel (b # cs))"
| "regex_camel cs = cs"

definition replace_space :: "string \<Rightarrow> string" where
  \<comment> \<open>\<open>.str.replace(" ", "_")\<close>: the space U+0020 only\<close>
  "replace_space s = map (\<lambda>c. if c = CHR '' '' then CHR ''_'' else c) s"

definition lower :: "string \<Rightarrow> string" where
  \<comment> \<open>\<open>.str.lower()\<close>\<close>
  "lower s = map lower_char s"

function regex_underscores :: "string \<Rightarrow> string" where
  \<comment> \<open>\<open>.str.replace(r"_+", "_", regex=True)\<close>: a match is a maximal run of underscores\<close>
  "regex_underscores [] = []"
| "regex_underscores (c # cs) =
     (if c = CHR ''_''
      then CHR ''_'' # regex_underscores (dropWhile (\<lambda>x. x = CHR ''_'') cs)
      else c # regex_underscores cs)"
  by pat_completeness auto
termination
  by (relation "measure length") (auto simp: less_Suc_eq_le length_dropWhile_le)

definition strip_underscores :: "string \<Rightarrow> string" where
  \<comment> \<open>\<open>.str.strip("_")\<close>\<close>
  "strip_underscores s =
     rev (dropWhile (\<lambda>x. x = CHR ''_'') (rev (dropWhile (\<lambda>x. x = CHR ''_'') s)))"

definition snake_name :: "string \<Rightarrow> string" where
  \<comment> \<open>the chain of string operations applied to every column label\<close>
  "snake_name s =
     strip_underscores (regex_underscores (lower (replace_space (regex_camel s))))"

fun has_double_underscore :: "string \<Rightarrow> bool" where
  "has_double_underscore (a # b # cs) =
     ((a = CHR ''_'' \<and> b = CHR ''_'') \<or> has_double_underscore (b # cs))"
| "has_double_underscore cs = False"

definition begins_with_underscore :: "string \<Rightarrow> bool" where
  "begins_with_underscore s = (case s of [] \<Rightarrow> False | c # cs \<Rightarrow> c = CHR ''_'')"

definition ends_with_underscore :: "string \<Rightarrow> bool" where
  "ends_with_underscore s = begins_with_underscore (rev s)"

section \<open>Data frames\<close>

text \<open>
  A cell of a data frame is a number, a string or the missing value. A frame is its
  number of rows and its columns in order, each a label with the values of the column;
  it is well formed when every column has one value per row. Column lookup takes the
  first column of a label.
\<close>

datatype val = NumV rat | StrV string | NaN

record frame =
  nrows :: nat
  cols :: "(string \<times> val list) list"


text \<open>
  The exceptions of the model: a missing column (\<open>KeyError\<close>), a query on a missing
  column (\<open>UndefinedVariableError\<close>), and the \<open>ValueError\<close>s and the \<open>IndexError\<close> of the
  library calls the plotting functions make: shapes that cannot be broadcast, a position
  outside a series, a negative precision in a format, \<open>max\<close> of an empty sequence.
\<close>

datatype error =
    KeyError string
  | UndefinedVariableError string
  | ShapeMismatch nat nat
  | IndexError nat
  | FormatError int
  | EmptySequence

fun bind_err :: "error + 'a \<Rightarrow> ('a \<Rightarrow> error + 'b) \<Rightarrow> error + 'b" where
  "bind_err (Inl e) f = Inl e"
| "bind_err (Inr x) f = f x"

definition snake_columns_rename :: "frame \<Rightarrow> frame" where
  \<comment> \<open>\<open>data.columns = data.columns.str. ...\<close>; returns the frame\<close>
  "snake_columns_rename data =
     data\<lparr>cols := map (\<lambda>(name, vs). (snake_name name, vs)) (cols data)\<rparr>"

definition get_column :: "frame \<Rightarrow> string \<Rightarrow> error + val list" where
  \<comment> \<open>\<open>data[column]\<close>\<close>
  "get_column data column =
     (case map_of (cols data) column of
        None \<Rightarrow> Inl (KeyError column)
      | Some vs \<Rightarrow> Inr vs)"

definition select_rows :: "bool list \<Rightarrow> frame \<Rightarrow> frame" where
  \<comment> \<open>the rows where the Boolean series holds\<close>
  "select_rows keep data =
     \<lparr>nrows = length (filter (\<lambda>b. b) keep),
      cols = map (\<lambda>(name, vs). (name, map fst (filter snd (zip vs keep)))) (cols data)\<rparr>"

definition query_eq :: "frame \<Rightarrow> string \<Rightarrow> int \<Rightarrow> error + frame" where
  \<comment> \<open>\<open>data.query(f'{target_col} == @churn_value')\<close>\<close>
  "query_eq data target v =
     (case map_of (cols data) target of
        None \<Rightarrow> Inl (UndefinedVariableError target)
      | Some tv \<Rightarrow> Inr (select_rows (map (\<lambda>x. x = NumV (of_int v)) tv) data))"

definition query_ne :: "frame \<Rightarrow> string \<Rightarrow> int \<Rightarrow> error + frame" where
  \<comment> \<open>\<open>data.query(f'{target_col} != @churn_value')\<close>; a missing target value is
      unequal to every number\<close>
  "query_ne data target v =
     (case map_of (cols data) target of
        None \<Rightarrow> Inl (UndefinedVariableError target)
      | Some tv \<Rightarrow> Inr (select_rows (map (\<lambda>x. x \<noteq> NumV (of_int v)) tv) data))"

definition unique :: "'a list \<Rightarrow> 'a list" where
  \<comment> \<open>\<open>.unique()\<close>: the distinct values in order of first appearance; the missing value
      is one of them\<close>
  "unique xs = rev (remdups (rev xs))"

definition value_counts :: "val list \<Rightarrow> (val \<times> nat) list" where
  \<comment> \<open>\<open>.value_counts()\<close>: missing values dropped, one entry per distinct value, sorted
      by falling count (ties in order of first appearance)\<close>
  "value_counts vs =
     (let xs = filter (\<lambda>v. v \<noteq> NaN) vs
      in sort_key (\<lambda>(k, c). - int c) (map (\<lambda>k. (k, count_list xs k)) (unique xs)))"

definition frame_value_counts :: "frame \<Rightarrow> string \<Rightarrow> error + (val \<times> nat) list" where
  \<comment> \<open>\<open>data.value_counts(column)\<close>\<close>
  "frame_value_counts data column = bind_err (get_column data column) (\<lambda>vs. Inr (value_counts vs))"

section \<open>Percentages\<close>

text \<open>
  The source computes percentages in binary floating point. The model computes them
  in exact rational arithmetic; \<open>.round(decimals)\<close> is numpy's: scale, round half to
  even, scale back. A count is only ever divided by the number of rows of the frame it
  was counted in, and a well-formed frame without rows has no counts, so no percentage
  of the model is the value of a division by zero.
\<close>

definition rint :: "rat \<Rightarrow> int" where
  "rint x =
     (let f = \<lfloor>x\<rfloor>; r = x - of_int f
      in if r < 1 / 2 then f else if 1 / 2 < r then f + 1 else if even f then f else f + 1)"

definition np_round :: "int \<Rightarrow> rat \<Rightarrow> rat" where
  "np_round decimals x =
     (if 0 \<le> decimals
      then of_int (rint (x * 10 ^ nat decimals)) / 10 ^ nat decimals
      else of_int (rint (x / 10 ^ nat (- decimals))) * 10 ^ nat (- decimals))"

definition percentages_of :: "(val \<times> nat) list \<Rightarrow> nat \<Rightarrow> int \<Rightarrow> (val \<times> rat) list" where
  \<comment> \<open>\<open>(counts / total * 100).round(decimals)\<close>, entry by entry\<close>
  "percentages_of counts n_total decimals =
     map (\<lambda>(k, c). (k, np_round decimals (of_nat c / of_nat n_total * 100))) counts"


section \<open>Display configuration (vizualization.py)\<close>

record PlotCfg =
  target_col :: string
  churn_value :: int
  nan_label :: string
  percent_decimals :: int


record label =
  shown_value :: rat
  shown_decimals :: nat
  shown_count :: int

definition format_label :: "int \<Rightarrow> rat \<Rightarrow> int \<Rightarrow> error + label" where
  \<comment> \<open>\<open>f'{value:.{decimals}f}%\n({count})'\<close>; a negative precision is a format error\<close>
  "format_label decimals v c =
     (if decimals < 0 then Inl (FormatError decimals)
      else Inr \<lparr>shown_value = v, shown_decimals = nat decimals, shown_count = c\<rparr>)"

fun map_err :: "('a \<Rightarrow> error + 'b) \<Rightarrow> 'a list \<Rightarrow> error + 'b list" where
  \<comment> \<open>a \<open>for\<close> loop that stops at the first exception\<close>
  "map_err f [] = Inr []"
| "map_err f (x # xs) =
     bind_err (f x) (\<lambda>y. bind_err (map_err f xs) (\<lambda>ys. Inr (y # ys)))"

definition py_max :: "nat list \<Rightarrow> error + nat" where
  \<comment> \<open>\<open>max(...)\<close>, which raises on an empty sequence\<close>
  "py_max xs = (case xs of [] \<Rightarrow> Inl EmptySequence | y # ys \<Rightarrow> Inr (fold max ys y))"

section \<open>category\_graph\<close>

text \<open>
  The plotting functions are modelled by what they hand to the plotting library: a chart
  is recorded with the arguments computed from the data and the configuration, and the
  result of a function is an error or the charts it draws. Constant styling arguments
  (angles, fonts, captions, fixed axis limits, legends) are left out. A title is
  recorded by the column it names.
\<close>

text \<open>
  A pie chart has the column, the wedge sizes, the wedge labels and the texts of the
  wedges. A bar chart has the column, the bar heights, the tick labels, the upper limit of
  the y axis and the texts above the bars, each with its position, count and percentage.
  A figure has the shape of the grid requested by \<open>plt.subplots(nrows, 2, figsize=(12, 4 * nrows))\<close>,
  the charts with their cells, and the cells switched off.
\<close>

datatype chart =
    Pie string "nat list" "val list" "label list"
  | Bar string "nat list" "val list" rat "(rat \<times> rat \<times> nat \<times> rat) list"

record figure =
  fig_nrows :: nat
  fig_ncols :: nat
  fig_size :: "nat \<times> nat"
  plots :: "((nat \<times> nat) \<times> chart) list"
  off_cells :: "(nat \<times> nat) list"



definition axes_at :: "nat \<Rightarrow> nat \<Rightarrow> nat \<Rightarrow> nat \<times> nat" where
  \<comment> \<open>\<open>axes[row, col] if nrows > 1 else axes[col]\<close>: with one row the library returns a
      one-dimensional array, whose cells are those of row 0\<close>
  "axes_at n_rows row col = (if 1 < n_rows then (row, col) else (0, col))"

definition pie_labels :: "int \<Rightarrow> nat list \<Rightarrow> error + label list" where
  \<comment> \<open>the \<open>autopct\<close> callback, called by the library with the percentage of every wedge:
      \<open>f'{x:.{decimals}f}%\n({int(round(x * sum(values) / 100))})'\<close>\<close>
  "pie_labels decimals vs =
     map_err (\<lambda>v. let x = of_nat v / of_nat (sum_list vs) * 100
                   in format_label decimals x (rint (x * of_nat (sum_list vs) / 100))) vs"

definition graph_column ::
  "frame \<Rightarrow> PlotCfg \<Rightarrow> nat \<Rightarrow> nat \<Rightarrow> string \<Rightarrow> error + ((nat \<times> nat) \<times> chart)" where
  \<comment> \<open>the body of the loop over \<open>enumerate(columns)\<close>\<close>
  "graph_column data cfg n_rows idx column =
     (let row = idx div 2; col = idx mod 2; ax = axes_at n_rows row col
      in bind_err (frame_value_counts data column) (\<lambda>values.
         let percentages = percentages_of values (nrows data) (percent_decimals cfg)
         in bind_err (get_column data column) (\<lambda>cv.
            if length (unique cv) \<le> 2
            then bind_err (pie_labels (percent_decimals cfg) (map snd values)) (\<lambda>texts.
                 Inr (ax, Pie column (map snd values) (map fst values) texts))
            else bind_err (py_max (map snd values)) (\<lambda>max_value.
                 Inr (ax, Bar column (map snd values) (map fst values)
                        (of_nat max_value * (12 / 10))
                        (map (\<lambda>(i, (count, pct)).
                                (of_nat i, of_nat count + of_nat max_value * (2 / 100), count, pct))
                           (enumerate 0 (zip (map snd values) (map snd percentages)))))))))"

fun graph_loop ::
  "frame \<Rightarrow> PlotCfg \<Rightarrow> nat \<Rightarrow> nat \<Rightarrow> string list \<Rightarrow> error + ((nat \<times> nat) \<times> chart) list" where
  "graph_loop data cfg n_rows idx [] = Inr []"
| "graph_loop data cfg n_rows idx (column # columns) =
     bind_err (graph_column data cfg n_rows idx column) (\<lambda>p.
     bind_err (graph_loop data cfg n_rows (Suc idx) columns) (\<lambda>ps. Inr (p # ps)))"

definition category_graph :: "frame \<Rightarrow> string list \<Rightarrow> PlotCfg \<Rightarrow> error + figure" where
  "category_graph data columns cfg =
     (let n = length columns; n_rows = (n + 1) div 2
      in bind_err (graph_loop data cfg n_rows 0 columns) (\<lambda>ps.
         Inr \<lparr>fig_nrows = n_rows, fig_ncols = 2, fig_size = (12, 4 * n_rows), plots = ps,
              off_cells =
                (if n mod 2 \<noteq> 0
                 then (if 1 < n_rows then [(n_rows - 1, 2 - 1)] else [(0, 2 - 1)])
                 else [])\<rparr>))"

section \<open>numeric\_graph\<close>

text \<open>
  For every column a histogram of 30 bins and a box plot, each of the values of the
  column.
\<close>

datatype numeric_plot = Hist string "val list" nat | Box string "val list"

definition numeric_graph :: "frame \<Rightarrow> string list \<Rightarrow> PlotCfg \<Rightarrow> error + numeric_plot list list" where
  "numeric_graph data num_cols cfg =
     map_err (\<lambda>column.
        bind_err (get_column data column) (\<lambda>vs.
        bind_err (get_column data column) (\<lambda>ws.
        Inr [Hist column vs 30, Box column ws]))) num_cols"

section \<open>category\_graph\_compare\<close>

text \<open>
  A bar is its rectangle; an annotation is a text with its position. The chart of a
  column has the bars of both cohorts, the annotations, the ticks and their labels.
\<close>

record rect =
  rect_x :: rat
  rect_width :: rat
  rect_height :: rat

definition broadcast_shape :: "nat \<Rightarrow> nat \<Rightarrow> nat option" where
  \<comment> \<open>numpy's broadcasting of two one-dimensional shapes\<close>
  "broadcast_shape a b =
     (if a = b then Some a else if a = 1 then Some b else if b = 1 then Some a else None)"

definition broadcast_to :: "'a list \<Rightarrow> nat \<Rightarrow> 'a list" where
  "broadcast_to xs n = (case xs of [x] \<Rightarrow> replicate n x | _ \<Rightarrow> xs)"

definition bar_rect :: "rat \<Rightarrow> rat \<times> rat \<Rightarrow> rect" where
  \<comment> \<open>a bar is centred on its \<open>x\<close>; \<open>get_x()\<close> is its left edge\<close>
  "bar_rect width = (\<lambda>(x, h). \<lparr>rect_x = x - width / 2, rect_width = width, rect_height = h\<rparr>)"

definition ax_bar :: "rat list \<Rightarrow> rat list \<Rightarrow> rat \<Rightarrow> error + rect list" where
  \<comment> \<open>\<open>ax.bar(x, height, width)\<close>: the arguments are broadcast against each other, which
      raises when the shapes do not fit\<close>
  "ax_bar xs heights width =
     (case broadcast_shape (length xs) (length heights) of
        None \<Rightarrow> Inl (ShapeMismatch (length xs) (length heights))
      | Some n \<Rightarrow>
          Inr (map (bar_rect width) (zip (broadcast_to xs n) (broadcast_to heights n))))"

definition iloc :: "'a list \<Rightarrow> nat \<Rightarrow> error + 'a" where
  \<comment> \<open>\<open>.iloc[i]\<close> with \<open>i \<ge> 0\<close>\<close>
  "iloc xs i = (if i < length xs then Inr (xs ! i) else Inl (IndexError i))"

record annotation =
  text_x :: rat
  text_y :: rat
  text_label :: label

fun label_loop ::
  "int \<Rightarrow> (val \<times> nat) list \<Rightarrow> (val \<times> nat) list \<Rightarrow> nat \<Rightarrow> (rect \<times> rect) list
     \<Rightarrow> error + annotation list" where
  \<comment> \<open>\<open>for i, (bar1, bar2) in enumerate(zip(bars1, bars2))\<close>\<close>
  "label_loop decimals churned_counts retained_counts i [] = Inr []"
| "label_loop decimals churned_counts retained_counts i ((bar1, bar2) # bars) =
     bind_err (iloc churned_counts i) (\<lambda>c1.
     bind_err (format_label decimals (rect_height bar1) (int (snd c1))) (\<lambda>l1.
     bind_err (iloc retained_counts i) (\<lambda>c2.
     bind_err (format_label decimals (rect_height bar2) (int (snd c2))) (\<lambda>l2.
     bind_err (label_loop decimals churned_counts retained_counts (Suc i) bars) (\<lambda>ts.
     Inr (\<lparr>text_x = rect_x bar1 + rect_width bar1 / 2, text_y = rect_x bar1 + 1,
            text_label = l1\<rparr>
          # \<lparr>text_x = rect_x bar2 + rect_width bar2 / 2, text_y = rect_x bar2 + 1,
              text_label = l2\<rparr>
          # ts))))))"

record compare_chart =
  chart_column :: string
  churned_bars :: "rect list"
  retained_bars :: "rect list"
  annotations :: "annotation list"
  xticks :: "rat list"
  xticklabels :: "val list"

definition cohort_counts :: "frame \<Rightarrow> string \<Rightarrow> error + (val \<times> nat) list" where
  \<comment> \<open>\<open>cohort[column].value_counts()\<close>\<close>
  "cohort_counts cohort column = bind_err (get_column cohort column) (\<lambda>vs. Inr (value_counts vs))"

definition cohort_pct :: "frame \<Rightarrow> string \<Rightarrow> PlotCfg \<Rightarrow> error + (val \<times> rat) list" where
  \<comment> \<open>\<open>(counts / len(cohort) * 100).round(cfg.percent_decimals)\<close>\<close>
  "cohort_pct cohort column cfg =
     bind_err (cohort_counts cohort column) (\<lambda>counts.
     Inr (percentages_of counts (nrows cohort) (percent_decimals cfg)))"

definition arange :: "nat \<Rightarrow> rat list" where
  "arange n = map of_nat [0 ..< n]"

definition bar_width :: rat where
  "bar_width = 35 / 100"

definition compare_column ::
  "frame \<Rightarrow> frame \<Rightarrow> PlotCfg \<Rightarrow> string \<Rightarrow> error + compare_chart" where
  \<comment> \<open>the body of the loop over \<open>cat_columns\<close>\<close>
  "compare_column churned_data retained_data cfg column =
     bind_err (cohort_counts churned_data column) (\<lambda>churned_counts.
     bind_err (cohort_counts retained_data column) (\<lambda>retained_counts.
     bind_err (cohort_pct churned_data column cfg) (\<lambda>churned_pct.
     bind_err (cohort_pct retained_data column cfg) (\<lambda>retained_pct.
     let x_pos = arange (length churned_pct)
     in bind_err (ax_bar (map (\<lambda>x. x - bar_width / 2) x_pos) (map snd churned_pct) bar_width)
          (\<lambda>bars1.
        bind_err (ax_bar (map (\<lambda>x. x + bar_width / 2) x_pos) (map snd retained_pct) bar_width)
          (\<lambda>bars2.
        bind_err (label_loop (percent_decimals cfg) churned_counts retained_counts 0
                    (zip bars1 bars2))
          (\<lambda>texts.
        Inr \<lparr>chart_column = column, churned_bars = bars1, retained_bars = bars2,
             annotations = texts, xticks = x_pos, xticklabels = map fst churned_pct\<rparr>)))))))"

definition category_graph_compare ::
  "frame \<Rightarrow> string list \<Rightarrow> PlotCfg \<Rightarrow> error + compare_chart list" where
  "category_graph_compare data cat_columns cfg =
     bind_err (query_eq data (target_col cfg) (churn_value cfg)) (\<lambda>churned_data.
     bind_err (query_ne data (target_col cfg) (churn_value cfg)) (\<lambda>retained_data.
     map_err (compare_column churned_data retained_data cfg) cat_columns))"

section \<open>numeric\_graph\_compare\<close>

text \<open>
  For every column one pair of density histograms, of the churned and of the retained
  values of the column.
\<close>

datatype density_plot = StepHist string "val list" "val list"

definition numeric_graph_compare ::
  "frame \<Rightarrow> string list \<Rightarrow> PlotCfg \<Rightarrow> error + density_plot list" where
  "numeric_graph_compare data num_cols cfg =
     bind_err (query_eq data (target_col cfg) (churn_value cfg)) (\<lambda>churned_data.
     bind_err (query_ne data (target_col cfg) (churn_value cfg)) (\<lambda>retained_data.
     map_err (\<lambda>column.
        bind_err (get_column churned_data column) (\<lambda>cv.
        bind_err (get_column retained_data column) (\<lambda>rv.
        Inr (StepHist column cv rv)))) num_cols))"

section \<open>Example data\<close>










section \<open>Properties of the normalizer\<close>

lemma char_of_eq_iff_nat: "(char_of (n :: nat) = c) = (n mod 256 = of_char c)"
  by (metis char_of_char of_char_of)

lemma of_char_lower_char:
  "(of_char (lower_char c) :: nat) = (if isupper c then of_char c + 32 else of_char c)"
proof (cases "isupper c")
  case True
  then have "(of_char c :: nat) + 32 < 256" by (auto simp: isupper_def)
  then have "((of_char c :: nat) + 32) mod 256 = of_char c + 32" by (rule mod_less)
  with True show ?thesis by (simp add: lower_char_def)
next
  case False
  then show ?thesis by (simp add: lower_char_def)
qed

lemma not_isupper_lower_char: "\<not> isupper (lower_char c)"
proof
  assume "isupper (lower_char c)"
  then show False
    unfolding isupper_def[of "lower_char c"] of_char_lower_char
    by (auto simp: isupper_def split: if_splits)
qed

lemma lower_char_idem: "lower_char (lower_char c) = lower_char c"
  using not_isupper_lower_char[of c] by (simp add: lower_char_def[of "lower_char c"])

lemma lower_char_fixed: "\<not> isupper c \<Longrightarrow> lower_char c = c"
  by (simp add: lower_char_def)

lemma lower_char_not_space: "c \<noteq> CHR '' '' \<Longrightarrow> lower_char c \<noteq> CHR '' ''"
proof
  assume ne: "c \<noteq> CHR '' ''" and eq: "lower_char c = CHR '' ''"
  from eq have "(of_char (lower_char c) :: nat) = 32" by simp
  then have "\<not> isupper c" by (auto simp: of_char_lower_char isupper_def split: if_splits)
  with eq ne show False by (simp add: lower_char_def)
qed

lemma ascii_upper_isupper: "is_ascii_upper c \<Longrightarrow> isupper c"
  by (simp add: is_ascii_upper_def isupper_def)

lemma space_not_in_replace_space: "CHR '' '' \<notin> set (replace_space s)"
  by (auto simp: replace_space_def)

lemma space_not_in_lower: "CHR '' '' \<notin> set s \<Longrightarrow> CHR '' '' \<notin> set (lower s)"
proof
  assume a: "CHR '' '' \<notin> set s" and b: "CHR '' '' \<in> set (lower s)"
  from b obtain c where c: "c \<in> set s" "lower_char c = CHR '' ''"
    unfolding lower_def by (metis (no_types) imageE list.set_map)
  from c(2) have "c = CHR '' ''" using lower_char_not_space by blast
  with a c(1) show False by simp
qed

lemma set_regex_underscores: "set (regex_underscores s) \<subseteq> set s"
proof (induction s rule: regex_underscores.induct)
  case 1
  show ?case by simp
next
  case (2 c cs)
  show ?case
  proof (cases "c = CHR ''_''")
    case True
    with 2 have "set (regex_underscores (dropWhile (\<lambda>x. x = CHR ''_'') cs)) \<subseteq> set cs"
      using set_dropWhileD by fastforce
    with True show ?thesis by auto
  next
    case False
    with 2 show ?thesis by auto
  qed
qed

lemma set_strip_underscores: "set (strip_underscores s) \<subseteq> set s"
proof
  fix x assume "x \<in> set (strip_underscores s)"
  then have "x \<in> set (dropWhile (\<lambda>x. x = CHR ''_'') (rev (dropWhile (\<lambda>x. x = CHR ''_'') s)))"
    by (simp add: strip_underscores_def)
  then have "x \<in> set (rev (dropWhile (\<lambda>x. x = CHR ''_'') s))" by (rule set_dropWhileD)
  then have "x \<in> set (dropWhile (\<lambda>x. x = CHR ''_'') s)" by simp
  then show "x \<in> set s" by (rule set_dropWhileD)
qed

lemma strip_underscores_decomp:
  "\<exists>p q. s = p @ strip_underscores s @ q"
proof -
  let ?P = "\<lambda>x. x = CHR ''_''"
  let ?t = "dropWhile ?P s"
  have "s = takeWhile ?P s @ ?t" by simp
  moreover have "rev ?t = takeWhile ?P (rev ?t) @ dropWhile ?P (rev ?t)" by simp
  then have "?t = rev (dropWhile ?P (rev ?t)) @ rev (takeWhile ?P (rev ?t))"
    by (metis rev_append rev_rev_ident)
  ultimately have "s = takeWhile ?P s @ strip_underscores s @ rev (takeWhile ?P (rev ?t))"
    by (simp add: strip_underscores_def)
  then show ?thesis by blast
qed

lemma has_double_underscore_iff:
  "has_double_underscore s = (\<exists>p q. s = p @ CHR ''_'' # CHR ''_'' # q)"
proof (induction s rule: has_double_underscore.induct)
  case (1 a b cs)
  show ?case
  proof
    assume "has_double_underscore (a # b # cs)"
    then consider "a = CHR ''_'' \<and> b = CHR ''_''" | "has_double_underscore (b # cs)" by auto
    then show "\<exists>p q. a # b # cs = p @ CHR ''_'' # CHR ''_'' # q"
    proof cases
      case 1
      then have "a # b # cs = [] @ CHR ''_'' # CHR ''_'' # cs" by simp
      then show ?thesis by blast
    next
      case 2
      with 1 obtain p q where "b # cs = p @ CHR ''_'' # CHR ''_'' # q" by blast
      then have "a # b # cs = (a # p) @ CHR ''_'' # CHR ''_'' # q" by simp
      then show ?thesis by blast
    qed
  next
    assume "\<exists>p q. a # b # cs = p @ CHR ''_'' # CHR ''_'' # q"
    then obtain p q where pq: "a # b # cs = p @ CHR ''_'' # CHR ''_'' # q" by blast
    show "has_double_underscore (a # b # cs)"
    proof (cases p)
      case Nil
      with pq show ?thesis by simp
    next
      case (Cons x p')
      with pq have "b # cs = p' @ CHR ''_'' # CHR ''_'' # q" by simp
      then have "\<exists>p q. b # cs = p @ CHR ''_'' # CHR ''_'' # q" by blast
      with 1 have "has_double_underscore (b # cs)" by simp
      then show ?thesis by simp
    qed
  qed
qed (auto simp: Cons_eq_append_conv)

lemma has_double_underscore_sublist:
  "has_double_underscore t \<Longrightarrow> has_double_underscore (p @ t @ q)"
proof -
  assume "has_double_underscore t"
  then obtain u v where "t = u @ CHR ''_'' # CHR ''_'' # v"
    unfolding has_double_underscore_iff by blast
  then have "p @ t @ q = (p @ u) @ CHR ''_'' # CHR ''_'' # (v @ q)" by simp
  then show ?thesis unfolding has_double_underscore_iff by blast
qed

lemma regex_underscores_hd:
  "s \<noteq> [] \<Longrightarrow> regex_underscores s \<noteq> [] \<and> hd (regex_underscores s) = hd s"
  by (cases s) auto

lemma has_double_underscore_Cons:
  "has_double_underscore (a # s) =
     ((a = CHR ''_'' \<and> begins_with_underscore s) \<or> has_double_underscore s)"
  by (cases s) (simp_all add: begins_with_underscore_def)

lemma begins_regex_underscores:
  "begins_with_underscore (regex_underscores s) = begins_with_underscore s"
  by (cases s) (simp_all add: begins_with_underscore_def)

lemma not_begins_dropWhile: "\<not> begins_with_underscore (dropWhile (\<lambda>x. x = CHR ''_'') s)"
proof (cases "dropWhile (\<lambda>x. x = CHR ''_'') s")
  case Nil
  then show ?thesis by (simp only: begins_with_underscore_def list.case not_False_eq_True)
next
  case (Cons y ys)
  then have "dropWhile (\<lambda>x. x = CHR ''_'') s \<noteq> []" by simp
  then have "\<not> (\<lambda>x. x = CHR ''_'') (hd (dropWhile (\<lambda>x. x = CHR ''_'') s))"
    by (rule hd_dropWhile)
  with Cons have "y \<noteq> CHR ''_''" by simp
  with Cons show ?thesis by (simp only: begins_with_underscore_def list.case not_False_eq_True)
qed

lemma no_double_regex_underscores: "\<not> has_double_underscore (regex_underscores s)"
proof (induction s rule: regex_underscores.induct)
  case 1
  show ?case by simp
next
  case (2 c cs)
  show ?case
  proof (cases "c = CHR ''_''")
    case True
    define t where "t = dropWhile (\<lambda>x. x = CHR ''_'') cs"
    from 2(1)[OF True] have ih: "\<not> has_double_underscore (regex_underscores t)"
      unfolding t_def .
    have step: "regex_underscores (c # cs) = CHR ''_'' # regex_underscores t"
      unfolding t_def using True by simp
    have "\<not> begins_with_underscore (regex_underscores t)"
      unfolding begins_regex_underscores t_def by (rule not_begins_dropWhile)
    with ih show ?thesis unfolding step has_double_underscore_Cons by simp
  next
    case False
    from 2(2)[OF False] have ih: "\<not> has_double_underscore (regex_underscores cs)" .
    have step: "regex_underscores (c # cs) = c # regex_underscores cs"
      using False by simp
    from False ih show ?thesis unfolding step has_double_underscore_Cons by simp
  qed
qed

lemma rev_dropWhile_rev_prefix: "\<exists>w. t = rev (dropWhile P (rev t)) @ w"
proof -
  have "rev t = takeWhile P (rev t) @ dropWhile P (rev t)" by simp
  then have "rev (rev t) = rev (takeWhile P (rev t) @ dropWhile P (rev t))" by (rule arg_cong)
  then have "t = rev (dropWhile P (rev t)) @ rev (takeWhile P (rev t))"
    by (simp only: rev_rev_ident rev_append)
  then show ?thesis ..
qed

lemma not_begins_strip: "\<not> begins_with_underscore (strip_underscores s)"
proof (cases "strip_underscores s")
  case Nil
  then show ?thesis by (simp add: begins_with_underscore_def)
next
  case (Cons y ys)
  obtain w where "dropWhile (\<lambda>x. x = CHR ''_'') s = strip_underscores s @ w"
    unfolding strip_underscores_def using rev_dropWhile_rev_prefix by blast
  with Cons have "dropWhile (\<lambda>x. x = CHR ''_'') s = y # (ys @ w)" by simp
  with not_begins_dropWhile[of s] have "y \<noteq> CHR ''_''"
    by (simp add: begins_with_underscore_def)
  with Cons show ?thesis by (simp add: begins_with_underscore_def)
qed

lemma not_ends_strip: "\<not> ends_with_underscore (strip_underscores s)"
proof -
  have "rev (strip_underscores s) =
          dropWhile (\<lambda>x. x = CHR ''_'') (rev (dropWhile (\<lambda>x. x = CHR ''_'') s))"
    by (simp add: strip_underscores_def)
  then show ?thesis
    unfolding ends_with_underscore_def using not_begins_dropWhile by simp
qed

lemma regex_camel_fixed: "\<forall>c\<in>set s. \<not> is_ascii_upper c \<Longrightarrow> regex_camel s = s"
  by (induction s rule: regex_camel.induct) simp_all

lemma replace_space_fixed: "CHR '' '' \<notin> set s \<Longrightarrow> replace_space s = s"
  unfolding replace_space_def by (induction s) auto

lemma lower_fixed: "\<forall>c\<in>set s. \<not> isupper c \<Longrightarrow> lower s = s"
  unfolding lower_def by (induction s) (simp_all add: lower_char_fixed)

lemma dropWhile_not_begins:
  "\<not> begins_with_underscore s \<Longrightarrow> dropWhile (\<lambda>x. x = CHR ''_'') s = s"
  by (cases s) (simp_all add: begins_with_underscore_def)

lemma regex_underscores_fixed: "\<not> has_double_underscore s \<Longrightarrow> regex_underscores s = s"
proof (induction s rule: regex_underscores.induct)
  case 1
  show ?case by simp
next
  case (2 c cs)
  from 2(3) have nd: "\<not> has_double_underscore cs" and nb: "c = CHR ''_'' \<longrightarrow> \<not> begins_with_underscore cs"
    unfolding has_double_underscore_Cons by simp_all
  show ?case
  proof (cases "c = CHR ''_''")
    case True
    with nb have eq: "dropWhile (\<lambda>x. x = CHR ''_'') cs = cs" by (simp add: dropWhile_not_begins)
    from 2(1)[OF True] nd have "regex_underscores cs = cs" unfolding eq by simp
    with True show ?thesis by (simp add: eq)
  next
    case False
    from 2(2)[OF False] nd have "regex_underscores cs = cs" by simp
    with False show ?thesis by simp
  qed
qed

lemma strip_underscores_fixed:
  "\<not> begins_with_underscore s \<Longrightarrow> \<not> ends_with_underscore s \<Longrightarrow> strip_underscores s = s"
  unfolding strip_underscores_def ends_with_underscore_def
  by (simp add: dropWhile_not_begins)

lemma snake_name_no_upper: "\<forall>c\<in>set (snake_name s). \<not> isupper c"
proof
  fix c assume "c \<in> set (snake_name s)"
  then have "c \<in> set (regex_underscores (lower (replace_space (regex_camel s))))"
    unfolding snake_name_def using set_strip_underscores by blast
  then have "c \<in> set (lower (replace_space (regex_camel s)))"
    using set_regex_underscores by blast
  then obtain d where "c = lower_char d" unfolding lower_def by auto
  then show "\<not> isupper c" by (simp add: not_isupper_lower_char)
qed

lemma snake_name_no_space: "CHR '' '' \<notin> set (snake_name s)"
proof
  assume "CHR '' '' \<in> set (snake_name s)"
  then have "CHR '' '' \<in> set (regex_underscores (lower (replace_space (regex_camel s))))"
    unfolding snake_name_def using set_strip_underscores by blast
  then have "CHR '' '' \<in> set (lower (replace_space (regex_camel s)))"
    using set_regex_underscores by blast
  moreover have "CHR '' '' \<notin> set (lower (replace_space (regex_camel s)))"
    by (rule space_not_in_lower) (rule space_not_in_replace_space)
  ultimately show False by simp
qed

lemma snake_name_no_double: "\<not> has_double_underscore (snake_name s)"
proof
  assume a: "has_double_underscore (snake_name s)"
  obtain p q where
    "regex_underscores (lower (replace_space (regex_camel s))) = p @ snake_name s @ q"
    unfolding snake_name_def using strip_underscores_decomp by blast
  with a have "has_double_underscore (regex_underscores (lower (replace_space (regex_camel s))))"
    by (simp add: has_double_underscore_sublist)
  then show False by (simp add: no_double_regex_underscores)
qed

lemma snake_name_ends: "\<not> begins_with_underscore (snake_name s)" "\<not> ends_with_underscore (snake_name s)"
  unfolding snake_name_def by (rule not_begins_strip, rule not_ends_strip)

lemma snake_name_idem: "snake_name (snake_name s) = snake_name s"
proof -
  let ?y = "snake_name s"
  have "\<forall>c\<in>set ?y. \<not> is_ascii_upper c"
    using snake_name_no_upper ascii_upper_isupper by blast
  then have 1: "regex_camel ?y = ?y" by (rule regex_camel_fixed)
  have 2: "replace_space ?y = ?y" by (rule replace_space_fixed) (rule snake_name_no_space)
  have 3: "lower ?y = ?y" by (rule lower_fixed) (rule snake_name_no_upper)
  have 4: "regex_underscores ?y = ?y" by (rule regex_underscores_fixed) (rule snake_name_no_double)
  have 5: "strip_underscores ?y = ?y" by (rule strip_underscores_fixed) (rule snake_name_ends)+
  show ?thesis
    unfolding snake_name_def[of ?y] 1 2 3 4 5 ..
qed

text \<open>
  C7. The name \<open>CustomerID Churn\<close> becomes \<open>customer_id_churn\<close>: a space is put between
  \<open>r\<close> and \<open>I\<close>, the spaces become underscores and the letters are lowered.
\<close>

theorem snake_name_customer_id_churn:
  "snake_name ''CustomerID Churn'' = ''customer_id_churn''"
  by (simp add: snake_name_def strip_underscores_def lower_def replace_space_def
      lower_char_def isupper_def is_ascii_upper_def is_ascii_lower_or_digit_def
      char_of_eq_iff_nat)




text \<open>
  C3. Normalizing a normalized name gives the same name, so renaming the columns of a
  frame twice is the same as renaming them once.
\<close>

theorem snake_columns_rename_idempotent:
  "snake_name (snake_name s) = snake_name s \<and>
   snake_columns_rename (snake_columns_rename data) = snake_columns_rename data"
proof -
  have "map (\<lambda>(name, vs). (snake_name name, vs)) (map (\<lambda>(name, vs). (snake_name name, vs)) xs)
        = map (\<lambda>(name, vs). (snake_name name, vs)) xs" for xs :: "(string \<times> val list) list"
    by (induction xs) (auto simp: snake_name_idem)
  then show ?thesis
    by (simp add: snake_columns_rename_def snake_name_idem)
qed

section \<open>Evaluation rules and shared facts\<close>







section \<open>Properties of category\_graph\<close>




















section \<open>Cohorts and their percentages\<close>






























section \<open>Bars and labels of category\_graph\_compare\<close>






























section \<open>The placeholder for missing values\<close>

lemma graph_loop_nan_label:
  "graph_loop data (cfg\<lparr>nan_label := l\<rparr>) n_rows idx columns = graph_loop data cfg n_rows idx columns"
  by (induction columns arbitrary: idx) (simp_all add: graph_column_def cong: if_cong)

lemma compare_column_nan_label:
  "compare_column ch re (cfg\<lparr>nan_label := l\<rparr>) = compare_column ch re cfg"
  by (rule ext) (simp add: compare_column_def cohort_pct_def)

text \<open>
  C9. No function of the module reads \<open>nan_label\<close>: two configurations that differ
  only in it give the same result of \<open>category_graph\<close>, \<open>numeric_graph\<close>,
  \<open>category_graph_compare\<close> and \<open>numeric_graph_compare\<close> on every frame and every list
  of columns.
\<close>

theorem nan_label_unused:
  "category_graph data columns (cfg\<lparr>nan_label := l\<rparr>) = category_graph data columns cfg \<and>
   numeric_graph data columns (cfg\<lparr>nan_label := l\<rparr>) = numeric_graph data columns cfg \<and>
   category_graph_compare data columns (cfg\<lparr>nan_label := l\<rparr>)
     = category_graph_compare data columns cfg \<and>
   numeric_graph_compare data columns (cfg\<lparr>nan_label := l\<rparr>)
     = numeric_graph_compare data columns cfg"
  by (simp add: category_graph_def graph_loop_nan_label numeric_graph_def
      category_graph_compare_def compare_column_nan_label numeric_graph_compare_def)

end
